theory Spec2Isabelle
  imports Complex_Main
begin

section \<open>Tables of the schema\<close>

text \<open>
  The persisted rows, one record per \<^verbatim>\<open>pgTable\<close> declaration, with exactly the columns
  the declaration lists. A \<^verbatim>\<open>varchar\<close> or \<^verbatim>\<open>text\<close> column is a \<open>string\<close>, a column without
  \<^verbatim>\<open>notNull()\<close> an option (\<open>None\<close> is SQL NULL). \<^verbatim>\<open>created_at\<close> has the default \<^verbatim>\<open>now()\<close>
  and no insert of the storage layer passes it, so it is an \<open>int\<close> (milliseconds).
  Field names carry the table's name as a prefix, since the tables share their column
  names.
\<close>

type_synonym ident = string
type_synonym timestamp = int

record User =
  user_id :: ident
  user_username :: string
  user_email :: string
  user_avatar :: "string option"
  user_createdAt :: timestamp

record Post =
  post_id :: ident
  post_userId :: ident
  post_content :: "string option"
  post_imageUrl :: "string option"
  post_createdAt :: timestamp

record Video =
  video_id :: ident
  video_userId :: ident
  video_videoUrl :: "string option"
  video_thumbnailUrl :: "string option"
  video_createdAt :: timestamp

record Location =
  location_id :: ident
  location_userId :: ident
  location_lat :: "string option"
  location_lng :: "string option"
  location_label :: "string option"
  location_createdAt :: timestamp

record Like =
  like_id :: ident
  like_userId :: ident
  like_postId :: "ident option"
  like_videoId :: "ident option"
  like_createdAt :: timestamp

record Comment =
  comment_id :: ident
  comment_userId :: ident
  comment_postId :: "ident option"
  comment_videoId :: "ident option"
  comment_text :: "string option"
  comment_createdAt :: timestamp

record Follow =
  follow_id :: ident
  follow_followerId :: ident
  follow_followingId :: ident
  follow_createdAt :: timestamp

record Save =
  save_id :: ident
  save_userId :: ident
  save_postId :: "ident option"
  save_videoId :: "ident option"
  save_createdAt :: timestamp

text \<open>
  The database: every table is the list of its rows in the order a sequential scan
  returns them, which the model takes to be the order of insertion.
\<close>

record store =
  users :: "User list"
  posts :: "Post list"
  videos :: "Video list"
  locations :: "Location list"
  likes :: "Like list"
  comments :: "Comment list"
  follows :: "Follow list"
  saves :: "Save list"

definition emptyStore :: store where
  "emptyStore = \<lparr>users = [], posts = [], videos = [], locations = [], likes = [],
     comments = [], follows = [], saves = []\<rparr>"

section \<open>Insert inputs and view objects\<close>

text \<open>The insert inputs have the keys of the Zod insert schemas.\<close>

record InsertPost =
  insertPost_userId :: ident
  insertPost_content :: "string option"
  insertPost_imageUrl :: "string option"

record InsertVideo =
  insertVideo_userId :: ident
  insertVideo_videoUrl :: string
  insertVideo_thumbnailUrl :: "string option"

record InsertLocation =
  insertLocation_userId :: ident
  insertLocation_lat :: string
  insertLocation_lng :: string
  insertLocation_label :: "string option"

record InsertComment =
  insertComment_userId :: ident
  insertComment_postId :: "ident option"
  insertComment_videoId :: "ident option"
  insertComment_text :: string

text \<open>
  \<^verbatim>\<open>PostWithDetails\<close> is the post row spread into an object that also carries the owner,
  the location, the counts and the viewer's flags. \<open>post_user\<close> is an option because
  \<^verbatim>\<open>getSavedPosts\<close> stores the joined user unchecked; \<open>post_isSaved = None\<close> is an object
  without the \<^verbatim>\<open>isSaved\<close> key.
\<close>

record PostWithDetails = Post +
  post_user :: "User option"
  post_location :: "Location option"
  post_likesCount :: nat
  post_commentsCount :: nat
  post_isLiked :: bool
  post_isSaved :: "bool option"

record VideoWithDetails = Video +
  video_user :: "User option"
  video_location :: "Location option"
  video_likesCount :: nat
  video_commentsCount :: nat
  video_isLiked :: bool
  video_isSaved :: "bool option"

section \<open>Errors and the database primitives\<close>

text \<open>
  The rejections of the promises: \<open>Thrown m\<close> is \<^verbatim>\<open>throw new Error(m)\<close>;
  \<open>NotNullViolation\<close> and \<open>UniqueViolation\<close> are the database refusing an insert that
  leaves the primary key NULL or repeats it; \<open>UndefinedColumn\<close> is a select failing
  because its join condition reads a column that the table object does not have;
  \<open>InvalidLimit\<close> is the database refusing the value bound to \<^verbatim>\<open>LIMIT\<close>; \<open>ZodError\<close> is
  what \<^verbatim>\<open>schema.parse\<close> throws on an input it does not accept.
\<close>

datatype error =
    Thrown string
  | NotNullViolation
  | UniqueViolation
  | UndefinedColumn
  | InvalidLimit
  | ZodError

text \<open>
  \<^verbatim>\<open>db.insert(t).values(v).returning()\<close>. Every table declares its \<^verbatim>\<open>id\<close> as
  \<^verbatim>\<open>varchar("id").primaryKey()\<close>, with no default: \<open>idValue\<close> is the \<^verbatim>\<open>id\<close> key of \<^verbatim>\<open>v\<close>,
  \<open>None\<close> when \<^verbatim>\<open>v\<close> has none, and \<open>row\<close> builds the row from the id. Without an id the
  column would be NULL and the insert is refused; with an id the table already holds
  it is refused as well; otherwise the row is appended and returned.
\<close>

definition insertRow ::
  "ident option \<Rightarrow> (ident \<Rightarrow> 'r) \<Rightarrow> ('r \<Rightarrow> ident) \<Rightarrow> 'r list \<Rightarrow> error + ('r \<times> 'r list)" where
  "insertRow idValue row key t =
     (case idValue of
        None \<Rightarrow> Inl NotNullViolation
      | Some i \<Rightarrow>
          if i \<in> set (map key t) then Inl UniqueViolation else Inr (row i, t @ [row i]))"

text \<open>\<^verbatim>\<open>db.delete(t).where(c).returning()\<close>: the deleted rows and the table that is left.\<close>

definition deleteWhere :: "('r \<Rightarrow> bool) \<Rightarrow> 'r list \<Rightarrow> 'r list \<times> 'r list" where
  "deleteWhere c t = (filter c t, filter (\<lambda>r. \<not> c r) t)"

text \<open>
  \<^verbatim>\<open>leftJoin\<close> keeps every left row, once for each right row that matches and once with
  NULL when none does; \<^verbatim>\<open>innerJoin\<close> drops the left rows without a match.
\<close>

definition leftJoin :: "('a \<Rightarrow> 'b \<Rightarrow> bool) \<Rightarrow> 'a list \<Rightarrow> 'b list \<Rightarrow> ('a \<times> 'b option) list" where
  "leftJoin on xs ys =
     concat (map (\<lambda>x. case filter (on x) ys of
                          [] \<Rightarrow> [(x, None)]
                        | m # ms \<Rightarrow> map (\<lambda>y. (x, Some y)) (m # ms)) xs)"

definition innerJoin :: "('a \<Rightarrow> 'b \<Rightarrow> bool) \<Rightarrow> 'a list \<Rightarrow> 'b list \<Rightarrow> ('a \<times> 'b) list" where
  "innerJoin on xs ys = concat (map (\<lambda>x. map (\<lambda>y. (x, y)) (filter (on x) ys)) xs)"

text \<open>
  \<^verbatim>\<open>eq(left, right)\<close> as a join condition between a nullable column of the left table
  and a column of the right table. \<open>left\<close> is what the property access on the table
  object yields: \<open>None\<close> is \<^verbatim>\<open>undefined\<close>, the table declares no such column, and the
  select built on the condition fails.
\<close>

definition eqColumn :: "('a \<Rightarrow> 'c option) option \<Rightarrow> ('b \<Rightarrow> 'c) \<Rightarrow> error + ('a \<Rightarrow> 'b \<Rightarrow> bool)" where
  "eqColumn left right =
     (case left of
        None \<Rightarrow> Inl UndefinedColumn
      | Some col \<Rightarrow> Inr (\<lambda>a b. col a = Some (right b)))"

text \<open>
  \<^verbatim>\<open>posts.locationId\<close> and \<^verbatim>\<open>videos.locationId\<close>, which the storage layer joins the
  locations on: neither \<^verbatim>\<open>posts\<close> nor \<^verbatim>\<open>videos\<close> declares a location column.
\<close>

definition posts_locationId :: "(Post \<Rightarrow> ident option) option" where
  "posts_locationId = None"

definition videos_locationId :: "(Video \<Rightarrow> ident option) option" where
  "videos_locationId = None"

text \<open>
  \<^verbatim>\<open>orderBy(desc(col))\<close>: the rows sorted by falling \<open>col\<close>. SQL leaves the order of rows
  with equal keys open; the model keeps them in scan order.
\<close>

definition orderByDesc :: "('a \<Rightarrow> timestamp) \<Rightarrow> 'a list \<Rightarrow> 'a list" where
  "orderByDesc col rows = sort_key (\<lambda>r. - col r) rows"

text \<open>
  A JavaScript \<^verbatim>\<open>number\<close>, as \<^verbatim>\<open>limit\<close> is typed. \<^verbatim>\<open>.limit(n)\<close> adds a \<^verbatim>\<open>LIMIT\<close> clause
  only when \<^verbatim>\<open>n >= 0\<close> holds, so a negative number and NaN leave the select unlimited;
  the database then takes the bound value as a \<^verbatim>\<open>bigint\<close> and refuses a fraction, a
  number from \<open>2^63\<close> on and an infinity.
\<close>

datatype number = Finite real | NaN | PosInfinity | NegInfinity

definition limitRows :: "number \<Rightarrow> 'a list \<Rightarrow> error + 'a list" where
  "limitRows n rows =
     (case n of
        Finite r \<Rightarrow>
          if r < 0 then Inr rows
          else if of_int \<lfloor>r\<rfloor> = r \<and> r < 2 ^ 63 then Inr (take (nat \<lfloor>r\<rfloor>) rows)
          else Inl InvalidLimit
      | NaN \<Rightarrow> Inr rows
      | PosInfinity \<Rightarrow> Inl InvalidLimit
      | NegInfinity \<Rightarrow> Inr rows)"

text \<open>
  \<^verbatim>\<open>Promise.all(rows.map(async row => ...))\<close>: the results in row order, or the rejection
  of the first row whose callback throws.
\<close>

fun promiseAll :: "('a \<Rightarrow> error + 'b) \<Rightarrow> 'a list \<Rightarrow> error + 'b list" where
  "promiseAll f [] = Inr []"
| "promiseAll f (x # xs) =
     (case f x of
        Inl e \<Rightarrow> Inl e
      | Inr y \<Rightarrow> (case promiseAll f xs of Inl e \<Rightarrow> Inl e | Inr ys \<Rightarrow> Inr (y # ys)))"

text \<open>JavaScript truthiness of an optional string: \<^verbatim>\<open>undefined\<close> and \<^verbatim>\<open>""\<close> are falsy.\<close>

definition truthy :: "string option \<Rightarrow> bool" where
  "truthy v = (case v of None \<Rightarrow> False | Some x \<Rightarrow> x \<noteq> [])"

section \<open>Storage operations\<close>

text \<open>
  Each operation of \<^verbatim>\<open>DatabaseStorage\<close> takes the store first and, when it writes,
  returns the new store beside its result. The values object of every insert below has
  no \<^verbatim>\<open>id\<close> key, so \<open>insertRow\<close> is called with \<open>None\<close>; the argument \<open>now\<close> is what the
  default of \<^verbatim>\<open>created_at\<close> would give the row.
\<close>

subsection \<open>Posts\<close>

definition createPost :: "store \<Rightarrow> InsertPost \<Rightarrow> timestamp \<Rightarrow> error + (Post \<times> store)" where
  "createPost s postData now =
     (case insertRow None
             (\<lambda>i. \<lparr>post_id = i, post_userId = insertPost_userId postData,
                    post_content = insertPost_content postData,
                    post_imageUrl = insertPost_imageUrl postData,
                    post_createdAt = now\<rparr>)
             post_id (posts s) of
        Inl e \<Rightarrow> Inl e
      | Inr (post, t) \<Rightarrow> Inr (post, s\<lparr>posts := t\<rparr>))"

text \<open>
  The select shared by the post views: posts left-joined to their user and, on
  \<^verbatim>\<open>posts.locationId\<close>, to their location.
\<close>

definition postsJoined ::
  "store \<Rightarrow> Post list \<Rightarrow> error + ((Post \<times> User option) \<times> Location option) list" where
  "postsJoined s ps =
     (case eqColumn posts_locationId location_id of
        Inl e \<Rightarrow> Inl e
      | Inr on \<Rightarrow>
          Inr (leftJoin (\<lambda>(post, user) location. on post location)
                 (leftJoin (\<lambda>post user. post_userId post = user_id user) ps (users s))
                 (locations s)))"

definition postLikesCount :: "store \<Rightarrow> ident \<Rightarrow> nat" where
  "postLikesCount s postId = length (filter (\<lambda>l. like_postId l = Some postId) (likes s))"

definition postCommentsCount :: "store \<Rightarrow> ident \<Rightarrow> nat" where
  "postCommentsCount s postId = length (filter (\<lambda>c. comment_postId c = Some postId) (comments s))"

definition isLikedPost :: "store \<Rightarrow> ident \<Rightarrow> ident \<Rightarrow> bool" where
  "isLikedPost s userId postId =
     (filter (\<lambda>l. like_userId l = userId \<and> like_postId l = Some postId) (likes s) \<noteq> [])"

definition isSavedPost :: "store \<Rightarrow> ident \<Rightarrow> ident \<Rightarrow> bool" where
  "isSavedPost s userId postId =
     (filter (\<lambda>v. save_userId v = userId \<and> save_postId v = Some postId) (saves s) \<noteq> [])"

definition feedPostDetails ::
  "store \<Rightarrow> ident \<Rightarrow> (Post \<times> User option) \<times> Location option \<Rightarrow> error + PostWithDetails" where
  "feedPostDetails s userId row =
     (case row of ((post, user), location) \<Rightarrow>
        (case user of
           None \<Rightarrow> Inl (Thrown ''Post has no user'')
         | Some u \<Rightarrow>
             Inr (Post.extend post
               (PostWithDetails.fields (Some u) location
                  (postLikesCount s (post_id post)) (postCommentsCount s (post_id post))
                  (filter (\<lambda>l. like_postId l = Some (post_id post) \<and> like_userId l = userId) (likes s) \<noteq> [])
                  (Some (filter (\<lambda>v. save_postId v = Some (post_id post) \<and> save_userId v = userId) (saves s) \<noteq> []))))))"

definition getFeedPosts :: "store \<Rightarrow> ident \<Rightarrow> number option \<Rightarrow> error + PostWithDetails list" where
  "getFeedPosts s userId limit =
     (let n = (case limit of None \<Rightarrow> Finite 20 | Some k \<Rightarrow> k)
      in case postsJoined s (posts s) of
           Inl e \<Rightarrow> Inl e
         | Inr joined \<Rightarrow>
             (case limitRows n (orderByDesc (\<lambda>((post, user), location). post_createdAt post) joined) of
                Inl e \<Rightarrow> Inl e
              | Inr feedPosts \<Rightarrow> promiseAll (feedPostDetails s userId) feedPosts))"

definition getPostWithDetails ::
  "store \<Rightarrow> ident \<Rightarrow> ident option \<Rightarrow> error + PostWithDetails option" where
  "getPostWithDetails s postId currentUserId =
     (case postsJoined s (filter (\<lambda>p. post_id p = postId) (posts s)) of
        Inl e \<Rightarrow> Inl e
      | Inr [] \<Rightarrow> Inr None
      | Inr (((post, user), location) # rest) \<Rightarrow>
          (case user of
             None \<Rightarrow> Inr None
           | Some u \<Rightarrow>
               Inr (Some (Post.extend post
                 (PostWithDetails.fields (Some u) location
                    (postLikesCount s postId) (postCommentsCount s postId)
                    (case currentUserId of
                       None \<Rightarrow> False
                     | Some viewer \<Rightarrow>
                         if truthy currentUserId
                         then filter (\<lambda>l. like_postId l = Some postId \<and> like_userId l = viewer) (likes s) \<noteq> []
                         else False)
                    None)))))"

definition deletePost :: "store \<Rightarrow> ident \<Rightarrow> ident \<Rightarrow> bool \<times> store" where
  "deletePost s postId userId =
     (case deleteWhere (\<lambda>p. post_id p = postId \<and> post_userId p = userId) (posts s) of
        (result, t) \<Rightarrow> (length result > 0, s\<lparr>posts := t\<rparr>))"

definition deletePostAdmin :: "store \<Rightarrow> ident \<Rightarrow> bool \<times> store" where
  "deletePostAdmin s postId =
     (case deleteWhere (\<lambda>p. post_id p = postId) (posts s) of
        (result, t) \<Rightarrow> (length result > 0, s\<lparr>posts := t\<rparr>))"

text \<open>The admin listing: every post, newest first, the viewer's like flag forced false.\<close>

definition allPostDetails ::
  "store \<Rightarrow> (Post \<times> User option) \<times> Location option \<Rightarrow> error + PostWithDetails" where
  "allPostDetails s row =
     (case row of ((post, user), location) \<Rightarrow>
        (case user of
           None \<Rightarrow> Inl (Thrown ''Post has no user'')
         | Some u \<Rightarrow>
             Inr (Post.extend post
               (PostWithDetails.fields (Some u) location
                  (postLikesCount s (post_id post)) (postCommentsCount s (post_id post))
                  False None))))"

definition getAllPosts :: "store \<Rightarrow> error + PostWithDetails list" where
  "getAllPosts s =
     (case postsJoined s (posts s) of
        Inl e \<Rightarrow> Inl e
      | Inr joined \<Rightarrow>
          promiseAll (allPostDetails s)
            (orderByDesc (\<lambda>((post, user), location). post_createdAt post) joined))"

subsection \<open>Videos\<close>

definition createVideo :: "store \<Rightarrow> InsertVideo \<Rightarrow> timestamp \<Rightarrow> error + (Video \<times> store)" where
  "createVideo s videoData now =
     (case insertRow None
             (\<lambda>i. \<lparr>video_id = i, video_userId = insertVideo_userId videoData,
                    video_videoUrl = Some (insertVideo_videoUrl videoData),
                    video_thumbnailUrl = insertVideo_thumbnailUrl videoData,
                    video_createdAt = now\<rparr>)
             video_id (videos s) of
        Inl e \<Rightarrow> Inl e
      | Inr (video, t) \<Rightarrow> Inr (video, s\<lparr>videos := t\<rparr>))"

definition videosJoined ::
  "store \<Rightarrow> Video list \<Rightarrow> error + ((Video \<times> User option) \<times> Location option) list" where
  "videosJoined s vs =
     (case eqColumn videos_locationId location_id of
        Inl e \<Rightarrow> Inl e
      | Inr on \<Rightarrow>
          Inr (leftJoin (\<lambda>(video, user) location. on video location)
                 (leftJoin (\<lambda>video user. video_userId video = user_id user) vs (users s))
                 (locations s)))"

definition videoLikesCount :: "store \<Rightarrow> ident \<Rightarrow> nat" where
  "videoLikesCount s videoId = length (filter (\<lambda>l. like_videoId l = Some videoId) (likes s))"

definition videoCommentsCount :: "store \<Rightarrow> ident \<Rightarrow> nat" where
  "videoCommentsCount s videoId = length (filter (\<lambda>c. comment_videoId c = Some videoId) (comments s))"

definition isLikedVideo :: "store \<Rightarrow> ident \<Rightarrow> ident \<Rightarrow> bool" where
  "isLikedVideo s userId videoId =
     (filter (\<lambda>l. like_userId l = userId \<and> like_videoId l = Some videoId) (likes s) \<noteq> [])"

definition isSavedVideo :: "store \<Rightarrow> ident \<Rightarrow> ident \<Rightarrow> bool" where
  "isSavedVideo s userId videoId =
     (filter (\<lambda>v. save_userId v = userId \<and> save_videoId v = Some videoId) (saves s) \<noteq> [])"

definition feedVideoDetails ::
  "store \<Rightarrow> ident \<Rightarrow> (Video \<times> User option) \<times> Location option \<Rightarrow> error + VideoWithDetails" where
  "feedVideoDetails s userId row =
     (case row of ((video, user), location) \<Rightarrow>
        (case user of
           None \<Rightarrow> Inl (Thrown ''Video has no user'')
         | Some u \<Rightarrow>
             Inr (Video.extend video
               (VideoWithDetails.fields (Some u) location
                  (videoLikesCount s (video_id video)) (videoCommentsCount s (video_id video))
                  (filter (\<lambda>l. like_videoId l = Some (video_id video) \<and> like_userId l = userId) (likes s) \<noteq> [])
                  (Some (filter (\<lambda>v. save_videoId v = Some (video_id video) \<and> save_userId v = userId) (saves s) \<noteq> []))))))"

definition getFeedVideos :: "store \<Rightarrow> ident \<Rightarrow> number option \<Rightarrow> error + VideoWithDetails list" where
  "getFeedVideos s userId limit =
     (let n = (case limit of None \<Rightarrow> Finite 20 | Some k \<Rightarrow> k)
      in case videosJoined s (videos s) of
           Inl e \<Rightarrow> Inl e
         | Inr joined \<Rightarrow>
             (case limitRows n (orderByDesc (\<lambda>((video, user), location). video_createdAt video) joined) of
                Inl e \<Rightarrow> Inl e
              | Inr feedVideos \<Rightarrow> promiseAll (feedVideoDetails s userId) feedVideos))"

definition deleteVideo :: "store \<Rightarrow> ident \<Rightarrow> ident \<Rightarrow> bool \<times> store" where
  "deleteVideo s videoId userId =
     (case deleteWhere (\<lambda>v. video_id v = videoId \<and> video_userId v = userId) (videos s) of
        (result, t) \<Rightarrow> (length result > 0, s\<lparr>videos := t\<rparr>))"

definition deleteVideoAdmin :: "store \<Rightarrow> ident \<Rightarrow> bool \<times> store" where
  "deleteVideoAdmin s videoId =
     (case deleteWhere (\<lambda>v. video_id v = videoId) (videos s) of
        (result, t) \<Rightarrow> (length result > 0, s\<lparr>videos := t\<rparr>))"

definition allVideoDetails ::
  "store \<Rightarrow> (Video \<times> User option) \<times> Location option \<Rightarrow> error + VideoWithDetails" where
  "allVideoDetails s row =
     (case row of ((video, user), location) \<Rightarrow>
        (case user of
           None \<Rightarrow> Inl (Thrown ''Video has no user'')
         | Some u \<Rightarrow>
             Inr (Video.extend video
               (VideoWithDetails.fields (Some u) location
                  (videoLikesCount s (video_id video)) (videoCommentsCount s (video_id video))
                  False None))))"

definition getAllVideos :: "store \<Rightarrow> error + VideoWithDetails list" where
  "getAllVideos s =
     (case videosJoined s (videos s) of
        Inl e \<Rightarrow> Inl e
      | Inr joined \<Rightarrow>
          promiseAll (allVideoDetails s)
            (orderByDesc (\<lambda>((video, user), location). video_createdAt video) joined))"

subsection \<open>Locations\<close>

definition createLocation ::
  "store \<Rightarrow> InsertLocation \<Rightarrow> timestamp \<Rightarrow> error + (Location \<times> store)" where
  "createLocation s locationData now =
     (case insertRow None
             (\<lambda>i. \<lparr>location_id = i, location_userId = insertLocation_userId locationData,
                    location_lat = Some (insertLocation_lat locationData),
                    location_lng = Some (insertLocation_lng locationData),
                    location_label = insertLocation_label locationData,
                    location_createdAt = now\<rparr>)
             location_id (locations s) of
        Inl e \<Rightarrow> Inl e
      | Inr (location, t) \<Rightarrow> Inr (location, s\<lparr>locations := t\<rparr>))"

definition deleteLocation :: "store \<Rightarrow> ident \<Rightarrow> ident \<Rightarrow> bool \<times> store" where
  "deleteLocation s locationId userId =
     (case deleteWhere (\<lambda>l. location_id l = locationId \<and> location_userId l = userId) (locations s) of
        (result, t) \<Rightarrow> (length result > 0, s\<lparr>locations := t\<rparr>))"

definition deleteLocationAdmin :: "store \<Rightarrow> ident \<Rightarrow> bool \<times> store" where
  "deleteLocationAdmin s locationId =
     (case deleteWhere (\<lambda>l. location_id l = locationId) (locations s) of
        (result, t) \<Rightarrow> (length result > 0, s\<lparr>locations := t\<rparr>))"

subsection \<open>Likes\<close>

definition likePost :: "store \<Rightarrow> ident \<Rightarrow> ident \<Rightarrow> timestamp \<Rightarrow> error + (Like \<times> store)" where
  "likePost s userId postId now =
     (case take 1 (filter (\<lambda>l. like_userId l = userId \<and> like_postId l = Some postId) (likes s)) of
        existing # rest \<Rightarrow> Inr (existing, s)
      | [] \<Rightarrow>
          (case insertRow None
                  (\<lambda>i. \<lparr>like_id = i, like_userId = userId, like_postId = Some postId,
                         like_videoId = None, like_createdAt = now\<rparr>)
                  like_id (likes s) of
             Inl e \<Rightarrow> Inl e
           | Inr (like, t) \<Rightarrow> Inr (like, s\<lparr>likes := t\<rparr>)))"

definition unlikePost :: "store \<Rightarrow> ident \<Rightarrow> ident \<Rightarrow> bool \<times> store" where
  "unlikePost s userId postId =
     (case deleteWhere (\<lambda>l. like_userId l = userId \<and> like_postId l = Some postId) (likes s) of
        (result, t) \<Rightarrow> (length result > 0, s\<lparr>likes := t\<rparr>))"

definition likeVideo :: "store \<Rightarrow> ident \<Rightarrow> ident \<Rightarrow> timestamp \<Rightarrow> error + (Like \<times> store)" where
  "likeVideo s userId videoId now =
     (case take 1 (filter (\<lambda>l. like_userId l = userId \<and> like_videoId l = Some videoId) (likes s)) of
        existing # rest \<Rightarrow> Inr (existing, s)
      | [] \<Rightarrow>
          (case insertRow None
                  (\<lambda>i. \<lparr>like_id = i, like_userId = userId, like_postId = None,
                         like_videoId = Some videoId, like_createdAt = now\<rparr>)
                  like_id (likes s) of
             Inl e \<Rightarrow> Inl e
           | Inr (like, t) \<Rightarrow> Inr (like, s\<lparr>likes := t\<rparr>)))"

definition unlikeVideo :: "store \<Rightarrow> ident \<Rightarrow> ident \<Rightarrow> bool \<times> store" where
  "unlikeVideo s userId videoId =
     (case deleteWhere (\<lambda>l. like_userId l = userId \<and> like_videoId l = Some videoId) (likes s) of
        (result, t) \<Rightarrow> (length result > 0, s\<lparr>likes := t\<rparr>))"

subsection \<open>Comments\<close>

definition createComment ::
  "store \<Rightarrow> InsertComment \<Rightarrow> timestamp \<Rightarrow> error + (Comment \<times> store)" where
  "createComment s commentData now =
     (case insertRow None
             (\<lambda>i. \<lparr>comment_id = i, comment_userId = insertComment_userId commentData,
                    comment_postId = insertComment_postId commentData,
                    comment_videoId = insertComment_videoId commentData,
                    comment_text = Some (insertComment_text commentData),
                    comment_createdAt = now\<rparr>)
             comment_id (comments s) of
        Inl e \<Rightarrow> Inl e
      | Inr (comment, t) \<Rightarrow> Inr (comment, s\<lparr>comments := t\<rparr>))"

definition deleteComment :: "store \<Rightarrow> ident \<Rightarrow> ident \<Rightarrow> bool \<times> store" where
  "deleteComment s commentId userId =
     (case deleteWhere (\<lambda>c. comment_id c = commentId \<and> comment_userId c = userId) (comments s) of
        (result, t) \<Rightarrow> (length result > 0, s\<lparr>comments := t\<rparr>))"

definition deleteCommentAdmin :: "store \<Rightarrow> ident \<Rightarrow> bool \<times> store" where
  "deleteCommentAdmin s commentId =
     (case deleteWhere (\<lambda>c. comment_id c = commentId) (comments s) of
        (result, t) \<Rightarrow> (length result > 0, s\<lparr>comments := t\<rparr>))"

subsection \<open>Follows\<close>

definition followUser :: "store \<Rightarrow> ident \<Rightarrow> ident \<Rightarrow> timestamp \<Rightarrow> error + (Follow \<times> store)" where
  "followUser s followerId followingId now =
     (case insertRow None
             (\<lambda>i. \<lparr>follow_id = i, follow_followerId = followerId,
                    follow_followingId = followingId, follow_createdAt = now\<rparr>)
             follow_id (follows s) of
        Inl e \<Rightarrow> Inl e
      | Inr (follow, t) \<Rightarrow> Inr (follow, s\<lparr>follows := t\<rparr>))"

definition unfollowUser :: "store \<Rightarrow> ident \<Rightarrow> ident \<Rightarrow> bool \<times> store" where
  "unfollowUser s followerId followingId =
     (case deleteWhere (\<lambda>f. follow_followerId f = followerId \<and> follow_followingId f = followingId)
             (follows s) of
        (result, t) \<Rightarrow> (length result > 0, s\<lparr>follows := t\<rparr>))"

definition isFollowing :: "store \<Rightarrow> ident \<Rightarrow> ident \<Rightarrow> bool" where
  "isFollowing s followerId followingId =
     (filter (\<lambda>f. follow_followerId f = followerId \<and> follow_followingId f = followingId) (follows s) \<noteq> [])"

subsection \<open>Saves\<close>

definition savePost :: "store \<Rightarrow> ident \<Rightarrow> ident \<Rightarrow> timestamp \<Rightarrow> error + (Save \<times> store)" where
  "savePost s userId postId now =
     (case filter (\<lambda>v. save_userId v = userId \<and> save_postId v = Some postId) (saves s) of
        existingSave # rest \<Rightarrow> Inr (existingSave, s)
      | [] \<Rightarrow>
          (case insertRow None
                  (\<lambda>i. \<lparr>save_id = i, save_userId = userId, save_postId = Some postId,
                         save_videoId = None, save_createdAt = now\<rparr>)
                  save_id (saves s) of
             Inl e \<Rightarrow> Inl e
           | Inr (save, t) \<Rightarrow> Inr (save, s\<lparr>saves := t\<rparr>)))"

definition unsavePost :: "store \<Rightarrow> ident \<Rightarrow> ident \<Rightarrow> bool \<times> store" where
  "unsavePost s userId postId =
     (case deleteWhere (\<lambda>v. save_userId v = userId \<and> save_postId v = Some postId) (saves s) of
        (result, t) \<Rightarrow> (length result > 0, s\<lparr>saves := t\<rparr>))"

definition saveVideo :: "store \<Rightarrow> ident \<Rightarrow> ident \<Rightarrow> timestamp \<Rightarrow> error + (Save \<times> store)" where
  "saveVideo s userId videoId now =
     (case filter (\<lambda>v. save_userId v = userId \<and> save_videoId v = Some videoId) (saves s) of
        existingSave # rest \<Rightarrow> Inr (existingSave, s)
      | [] \<Rightarrow>
          (case insertRow None
                  (\<lambda>i. \<lparr>save_id = i, save_userId = userId, save_postId = None,
                         save_videoId = Some videoId, save_createdAt = now\<rparr>)
                  save_id (saves s) of
             Inl e \<Rightarrow> Inl e
           | Inr (save, t) \<Rightarrow> Inr (save, s\<lparr>saves := t\<rparr>)))"

definition unsaveVideo :: "store \<Rightarrow> ident \<Rightarrow> ident \<Rightarrow> bool \<times> store" where
  "unsaveVideo s userId videoId =
     (case deleteWhere (\<lambda>v. save_userId v = userId \<and> save_videoId v = Some videoId) (saves s) of
        (result, t) \<Rightarrow> (length result > 0, s\<lparr>saves := t\<rparr>))"

text \<open>
  The saved listings join the saves to their target with an inner join, then the
  target to its user and, on \<^verbatim>\<open>posts.locationId\<close> or \<^verbatim>\<open>videos.locationId\<close>, to its
  location. The callback has no check of the joined user: \<^verbatim>\<open>user!\<close> is erased by the
  compiler, so a NULL user would be stored as it is.
\<close>

definition savedPostRows ::
  "store \<Rightarrow> ident \<Rightarrow> error + (((Save \<times> Post) \<times> User option) \<times> Location option) list" where
  "savedPostRows s userId =
     (case eqColumn posts_locationId location_id of
        Inl e \<Rightarrow> Inl e
      | Inr on \<Rightarrow>
          Inr (orderByDesc (\<lambda>(((save, post), user), location). save_createdAt save)
            (filter (\<lambda>(((save, post), user), location). save_userId save = userId \<and> save_postId save \<noteq> None)
               (leftJoin (\<lambda>((save, post), user) location. on post location)
                  (leftJoin (\<lambda>(save, post) user. post_userId post = user_id user)
                     (innerJoin (\<lambda>save post. save_postId save = Some (post_id post)) (saves s) (posts s))
                     (users s))
                  (locations s)))))"

definition savedPostDetails ::
  "store \<Rightarrow> ident \<Rightarrow> ((Save \<times> Post) \<times> User option) \<times> Location option \<Rightarrow> PostWithDetails" where
  "savedPostDetails s userId row =
     (case row of (((save, post), user), location) \<Rightarrow>
        Post.extend post
          (PostWithDetails.fields user location
             (postLikesCount s (post_id post)) (postCommentsCount s (post_id post))
             (isLikedPost s userId (post_id post)) None))"

definition getSavedPosts :: "store \<Rightarrow> ident \<Rightarrow> error + PostWithDetails list" where
  "getSavedPosts s userId =
     (case savedPostRows s userId of
        Inl e \<Rightarrow> Inl e
      | Inr savedPosts \<Rightarrow> Inr (map (savedPostDetails s userId) savedPosts))"

definition savedVideoRows ::
  "store \<Rightarrow> ident \<Rightarrow> error + (((Save \<times> Video) \<times> User option) \<times> Location option) list" where
  "savedVideoRows s userId =
     (case eqColumn videos_locationId location_id of
        Inl e \<Rightarrow> Inl e
      | Inr on \<Rightarrow>
          Inr (orderByDesc (\<lambda>(((save, video), user), location). save_createdAt save)
            (filter (\<lambda>(((save, video), user), location). save_userId save = userId \<and> save_videoId save \<noteq> None)
               (leftJoin (\<lambda>((save, video), user) location. on video location)
                  (leftJoin (\<lambda>(save, video) user. video_userId video = user_id user)
                     (innerJoin (\<lambda>save video. save_videoId save = Some (video_id video)) (saves s) (videos s))
                     (users s))
                  (locations s)))))"

definition savedVideoDetails ::
  "store \<Rightarrow> ident \<Rightarrow> ((Save \<times> Video) \<times> User option) \<times> Location option \<Rightarrow> VideoWithDetails" where
  "savedVideoDetails s userId row =
     (case row of (((save, video), user), location) \<Rightarrow>
        Video.extend video
          (VideoWithDetails.fields user location
             (videoLikesCount s (video_id video)) (videoCommentsCount s (video_id video))
             (isLikedVideo s userId (video_id video)) None))"

definition getSavedVideos :: "store \<Rightarrow> ident \<Rightarrow> error + VideoWithDetails list" where
  "getSavedVideos s userId =
     (case savedVideoRows s userId of
        Inl e \<Rightarrow> Inl e
      | Inr savedVideos \<Rightarrow> Inr (map (savedVideoDetails s userId) savedVideos))"

section \<open>Validation schema and route handler\<close>

text \<open>
  A JSON value of a request body; a key that is absent reads as \<open>None\<close>
  (\<^verbatim>\<open>undefined\<close>). \<^verbatim>\<open>z.string()\<close> accepts strings only, \<^verbatim>\<open>z.string().optional()\<close> also an
  absent key, and \<^verbatim>\<open>z.object\<close> drops the keys it does not declare.
\<close>

datatype json = JNull | JBool bool | JNumber int | JString string | JArray "json list"




text \<open>
  The handler of \<^verbatim>\<open>POST /api/follows/:userId\<close>, behind \<^verbatim>\<open>isAuthenticated\<close>:
  \<open>followerId\<close> is \<^verbatim>\<open>req.user.claims.sub\<close>, \<open>followingId\<close> is \<^verbatim>\<open>req.params.userId\<close>.
  \<^verbatim>\<open>res.json\<close> answers with status 200; the \<^verbatim>\<open>catch\<close> turns a rejection of the storage
  call into a 500.
\<close>

datatype body = Message string | FollowJson Follow

record response =
  res_status :: nat
  res_body :: body

definition postFollows :: "store \<Rightarrow> ident \<Rightarrow> ident \<Rightarrow> timestamp \<Rightarrow> response \<times> store" where
  "postFollows s followerId followingId now =
     (if followerId = followingId
      then (\<lparr>res_status = 400, res_body = Message ''Cannot follow yourself''\<rparr>, s)
      else (case followUser s followerId followingId now of
              Inl e \<Rightarrow> (\<lparr>res_status = 500, res_body = Message ''Failed to follow user''\<rparr>, s)
            | Inr (follow, s') \<Rightarrow> (\<lparr>res_status = 200, res_body = FollowJson follow\<rparr>, s')))"

section \<open>Reachable stores and the invariants of the data model\<close>

text \<open>
  The writes of the storage layer as commands, and the store each leaves; a write that
  throws leaves the store as it was. \<^verbatim>\<open>upsertUser\<close>, \<^verbatim>\<open>updateUserBio\<close> and
  \<^verbatim>\<open>updateUserProfile\<close> write the users table and nothing else: \<open>WriteUsers\<close> stands for
  the three and allows any new users table. A store is reachable when a sequence of
  writes builds it from the empty database.
\<close>

datatype command =
    WriteUsers "User list"
  | CreatePost InsertPost timestamp
  | DeletePost ident ident
  | DeletePostAdmin ident
  | CreateVideo InsertVideo timestamp
  | DeleteVideo ident ident
  | DeleteVideoAdmin ident
  | CreateLocation InsertLocation timestamp
  | DeleteLocation ident ident
  | DeleteLocationAdmin ident
  | LikePost ident ident timestamp
  | UnlikePost ident ident
  | LikeVideo ident ident timestamp
  | UnlikeVideo ident ident
  | CreateComment InsertComment timestamp
  | DeleteComment ident ident
  | DeleteCommentAdmin ident
  | FollowUser ident ident timestamp
  | UnfollowUser ident ident
  | SavePost ident ident timestamp
  | UnsavePost ident ident
  | SaveVideo ident ident timestamp
  | UnsaveVideo ident ident

definition written :: "store \<Rightarrow> error + ('r \<times> store) \<Rightarrow> store" where
  "written s r = (case r of Inl e \<Rightarrow> s | Inr (row, s') \<Rightarrow> s')"

fun exec :: "store \<Rightarrow> command \<Rightarrow> store" where
  "exec s (WriteUsers us) = s\<lparr>users := us\<rparr>"
| "exec s (CreatePost d t) = written s (createPost s d t)"
| "exec s (DeletePost p u) = snd (deletePost s p u)"
| "exec s (DeletePostAdmin p) = snd (deletePostAdmin s p)"
| "exec s (CreateVideo d t) = written s (createVideo s d t)"
| "exec s (DeleteVideo v u) = snd (deleteVideo s v u)"
| "exec s (DeleteVideoAdmin v) = snd (deleteVideoAdmin s v)"
| "exec s (CreateLocation d t) = written s (createLocation s d t)"
| "exec s (DeleteLocation l u) = snd (deleteLocation s l u)"
| "exec s (DeleteLocationAdmin l) = snd (deleteLocationAdmin s l)"
| "exec s (LikePost u p t) = written s (likePost s u p t)"
| "exec s (UnlikePost u p) = snd (unlikePost s u p)"
| "exec s (LikeVideo u v t) = written s (likeVideo s u v t)"
| "exec s (UnlikeVideo u v) = snd (unlikeVideo s u v)"
| "exec s (CreateComment d t) = written s (createComment s d t)"
| "exec s (DeleteComment c u) = snd (deleteComment s c u)"
| "exec s (DeleteCommentAdmin c) = snd (deleteCommentAdmin s c)"
| "exec s (FollowUser a b t) = written s (followUser s a b t)"
| "exec s (UnfollowUser a b) = snd (unfollowUser s a b)"
| "exec s (SavePost u p t) = written s (savePost s u p t)"
| "exec s (UnsavePost u p) = snd (unsavePost s u p)"
| "exec s (SaveVideo u v t) = written s (saveVideo s u v t)"
| "exec s (UnsaveVideo u v) = snd (unsaveVideo s u v)"





text \<open>The Like rows of a user on a post, as \<^verbatim>\<open>likePost\<close> selects them.\<close>

definition postLikeRows :: "store \<Rightarrow> ident \<Rightarrow> ident \<Rightarrow> Like list" where
  "postLikeRows s userId postId =
     filter (\<lambda>l. like_userId l = userId \<and> like_postId l = Some postId) (likes s)"

section \<open>Example stores\<close>

text \<open>
  The scenario of the specification's testable properties: users A and B are
  registered, A creates post P, then B likes P, saves P and comments "nice!" on P.
  The id of P is not known before the insert; the scenario takes it to be \<open>p1\<close>.
\<close>

definition userA :: User where
  "userA = \<lparr>user_id = ''a'', user_username = ''alice'', user_email = ''alice@example.org'',
            user_avatar = None, user_createdAt = 0\<rparr>"

definition userB :: User where
  "userB = \<lparr>user_id = ''b'', user_username = ''bob'', user_email = ''bob@example.org'',
            user_avatar = None, user_createdAt = 0\<rparr>"

definition scenarioStore :: store where
  "scenarioStore =
     exec (exec (exec (exec (emptyStore\<lparr>users := [userA, userB]\<rparr>)
       (CreatePost \<lparr>insertPost_userId = ''a'', insertPost_content = Some ''hello'',
                    insertPost_imageUrl = None\<rparr> 1))
       (LikePost ''b'' ''p1'' 2))
       (SavePost ''b'' ''p1'' 3))
       (CreateComment \<lparr>insertComment_userId = ''b'', insertComment_postId = Some ''p1'',
                       insertComment_videoId = None, insertComment_text = ''nice!''\<rparr> 4)"

text \<open>Three posts of two owners, for the deletions.\<close>

definition threePosts :: store where
  "threePosts = emptyStore\<lparr>posts :=
     [\<lparr>post_id = ''p1'', post_userId = ''a'', post_content = Some ''one'',
       post_imageUrl = None, post_createdAt = 1\<rparr>,
      \<lparr>post_id = ''p2'', post_userId = ''a'', post_content = Some ''two'',
       post_imageUrl = None, post_createdAt = 2\<rparr>,
      \<lparr>post_id = ''p3'', post_userId = ''b'', post_content = Some ''three'',
       post_imageUrl = None, post_createdAt = 3\<rparr>]\<rparr>"

section \<open>Auxiliary facts\<close>

text \<open>No insert of the storage layer passes an id, so each is refused.\<close>

lemma inserts_rejected:
  "createPost s postData now = Inl NotNullViolation"
  "createVideo s videoData now = Inl NotNullViolation"
  "createLocation s locationData now = Inl NotNullViolation"
  "createComment s commentData now = Inl NotNullViolation"
  "followUser s followerId followingId now = Inl NotNullViolation"
  by (simp_all add: createPost_def createVideo_def createLocation_def createComment_def
        followUser_def insertRow_def)

lemma likePost_without_row:
  "postLikeRows s u p = [] \<Longrightarrow> likePost s u p now = Inl NotNullViolation"
  by (simp add: likePost_def postLikeRows_def insertRow_def)

lemma likePost_with_row:
  "postLikeRows s u p = x # xs \<Longrightarrow> likePost s u p now = Inr (x, s)"
  by (simp add: likePost_def postLikeRows_def)

lemma unlikePost_without_row:
  assumes "postLikeRows s u p = []"
  shows "unlikePost s u p = (False, s)"
proof -
  from assms have f: "filter (\<lambda>l. like_userId l = u \<and> like_postId l = Some p) (likes s) = []"
    by (simp add: postLikeRows_def)
  then have g: "filter (\<lambda>l. \<not> (like_userId l = u \<and> like_postId l = Some p)) (likes s) = likes s"
    by (simp add: filter_empty_conv filter_id_conv)
  show ?thesis using f g by (simp add: unlikePost_def deleteWhere_def)
qed

text \<open>A get-or-create never changes the store: it finds the row or its insert is refused.\<close>

lemma get_or_create_store:
  "written s (likePost s u p now) = s"
  "written s (likeVideo s u v now) = s"
  "written s (savePost s u p now) = s"
  "written s (saveVideo s u v now) = s"
  by (simp_all add: written_def likePost_def likeVideo_def savePost_def saveVideo_def
        insertRow_def split: list.splits)

lemma creates_store:
  "written s (createPost s postData now) = s"
  "written s (createVideo s videoData now) = s"
  "written s (createLocation s locationData now) = s"
  "written s (createComment s commentData now) = s"
  "written s (followUser s a b now) = s"
  by (simp_all add: written_def inserts_rejected)






text \<open>Every select that joins the locations fails on the join condition.\<close>

lemma location_joins_rejected:
  "postsJoined s ps = Inl UndefinedColumn"
  "videosJoined s vs = Inl UndefinedColumn"
  "savedPostRows s userId = Inl UndefinedColumn"
  "savedVideoRows s userId = Inl UndefinedColumn"
  by (simp_all add: postsJoined_def videosJoined_def savedPostRows_def savedVideoRows_def
        eqColumn_def posts_locationId_def videos_locationId_def)

lemma listings_rejected:
  "getFeedPosts s viewer limit = Inl UndefinedColumn"
  "getFeedVideos s viewer limit = Inl UndefinedColumn"
  "getAllPosts s = Inl UndefinedColumn"
  "getAllVideos s = Inl UndefinedColumn"
  "getSavedPosts s userId = Inl UndefinedColumn"
  "getSavedVideos s userId = Inl UndefinedColumn"
  "getPostWithDetails s postId currentUserId = Inl UndefinedColumn"
  by (simp_all add: getFeedPosts_def getFeedVideos_def getAllPosts_def getAllVideos_def
        getSavedPosts_def getSavedVideos_def getPostWithDetails_def location_joins_rejected)



lemma scenarioStore_eq: "scenarioStore = emptyStore\<lparr>users := [userA, userB]\<rparr>"
  by (simp add: scenarioStore_def get_or_create_store creates_store)

section \<open>Likes are get-or-create\<close>

text \<open>
  C1. The code at the claim's failing input, the empty database: \<open>likePost\<close> finds no
  Like row of B on p1 and inserts one without an id, which the database refuses; the
  store stays empty, the second \<open>likePost\<close> is refused in the same way, and after both
  calls there is no Like row of B on p1. \<open>unlikePost\<close> without a row returns false and
  changes nothing.
\<close>

theorem likePost_insert_rejected:
  "likePost emptyStore ''b'' ''p1'' 10 = Inl NotNullViolation
   \<and> exec emptyStore (LikePost ''b'' ''p1'' 10) = emptyStore
   \<and> likePost (exec emptyStore (LikePost ''b'' ''p1'' 10)) ''b'' ''p1'' 11 = Inl NotNullViolation
   \<and> postLikeRows (exec (exec emptyStore (LikePost ''b'' ''p1'' 10)) (LikePost ''b'' ''p1'' 11))
        ''b'' ''p1'' = []
   \<and> unlikePost emptyStore ''b'' ''p1'' = (False, emptyStore)"
proof -
  have e: "postLikeRows emptyStore ''b'' ''p1'' = []"
    by (simp add: postLikeRows_def emptyStore_def)
  from likePost_without_row [OF e] unlikePost_without_row [OF e] e show ?thesis
    by (simp add: written_def)
qed

section \<open>Follows\<close>




text \<open>
  C6. When the caller's id equals the \<^verbatim>\<open>:userId\<close> parameter, the handler of
  \<^verbatim>\<open>POST /api/follows/:userId\<close> answers 400 with its message and returns the store it
  was given: no Follow row is written.
\<close>

theorem postFollows_self_follow:
  "followerId = followingId \<Longrightarrow>
   postFollows s followerId followingId now =
     (\<lparr>res_status = 400, res_body = Message ''Cannot follow yourself''\<rparr>, s)"
  by (simp add: postFollows_def)

theorem postFollows_self_follow_witness:
  "postFollows emptyStore ''a'' ''a'' 5 =
     (\<lparr>res_status = 400, res_body = Message ''Cannot follow yourself''\<rparr>, emptyStore)
   \<and> follows (snd (postFollows emptyStore ''a'' ''a'' 5)) = []"
proof -
  have h: "''a'' = ''a''" by simp
  from postFollows_self_follow [OF h, of emptyStore 5] show ?thesis
    by (simp add: emptyStore_def)
qed

section \<open>Deleting posts and videos\<close>

text \<open>
  C5. \<open>deletePost\<close> for an owner returns true exactly when the posts table holds a row
  with that id and that owner, and leaves the store with exactly those rows taken out
  of the posts table; a second call on that store returns false and changes nothing
  more. For a user who owns no row of that id it returns false and leaves the store as
  it is. \<open>deletePostAdmin\<close> returns true exactly when a row with that id exists, whoever
  owns it, and takes exactly the rows of that id out of the posts table.
\<close>

theorem deletePost_owner_scoped:
  "fst (deletePost s p owner) = (\<exists>r \<in> set (posts s). post_id r = p \<and> post_userId r = owner)
   \<and> deletePost (snd (deletePost s p owner)) p owner = (False, snd (deletePost s p owner))
   \<and> ((\<forall>r \<in> set (posts s). post_id r = p \<longrightarrow> post_userId r \<noteq> v) \<longrightarrow> deletePost s p v = (False, s))
   \<and> fst (deletePostAdmin s p) = (\<exists>r \<in> set (posts s). post_id r = p)
   \<and> (\<forall>r \<in> set (posts (snd (deletePostAdmin s p))). post_id r \<noteq> p)
   \<and> snd (deletePost s p owner) =
        s\<lparr>posts := filter (\<lambda>r. \<not> (post_id r = p \<and> post_userId r = owner)) (posts s)\<rparr>
   \<and> snd (deletePostAdmin s p) = s\<lparr>posts := filter (\<lambda>r. post_id r \<noteq> p) (posts s)\<rparr>"
  by (simp add: deletePost_def deletePostAdmin_def deleteWhere_def filter_empty_conv)

theorem deletePost_owner_scoped_witness:
  "deletePost threePosts ''p1'' ''a'' =
     (True, emptyStore\<lparr>posts :=
        [\<lparr>post_id = ''p2'', post_userId = ''a'', post_content = Some ''two'',
          post_imageUrl = None, post_createdAt = 2\<rparr>,
         \<lparr>post_id = ''p3'', post_userId = ''b'', post_content = Some ''three'',
          post_imageUrl = None, post_createdAt = 3\<rparr>]\<rparr>)
   \<and> deletePost (snd (deletePost threePosts ''p1'' ''a'')) ''p1'' ''a'' =
     (False, emptyStore\<lparr>posts :=
        [\<lparr>post_id = ''p2'', post_userId = ''a'', post_content = Some ''two'',
          post_imageUrl = None, post_createdAt = 2\<rparr>,
         \<lparr>post_id = ''p3'', post_userId = ''b'', post_content = Some ''three'',
          post_imageUrl = None, post_createdAt = 3\<rparr>]\<rparr>)
   \<and> deletePost threePosts ''p1'' ''b'' = (False, threePosts)
   \<and> deletePostAdmin threePosts ''p3'' =
     (True, emptyStore\<lparr>posts :=
        [\<lparr>post_id = ''p1'', post_userId = ''a'', post_content = Some ''one'',
          post_imageUrl = None, post_createdAt = 1\<rparr>,
         \<lparr>post_id = ''p2'', post_userId = ''a'', post_content = Some ''two'',
          post_imageUrl = None, post_createdAt = 2\<rparr>]\<rparr>)"
proof -
  note t = deletePost_owner_scoped [of threePosts "''p1''" "''a''" "''b''"]
  note a = deletePost_owner_scoped [of threePosts "''p3''" "''b''" "''a''"]
  from t have 1: "fst (deletePost threePosts ''p1'' ''a'')"
    by (simp add: threePosts_def emptyStore_def)
  from t have 2: "snd (deletePost threePosts ''p1'' ''a'') =
      emptyStore\<lparr>posts :=
        [\<lparr>post_id = ''p2'', post_userId = ''a'', post_content = Some ''two'',
          post_imageUrl = None, post_createdAt = 2\<rparr>,
         \<lparr>post_id = ''p3'', post_userId = ''b'', post_content = Some ''three'',
          post_imageUrl = None, post_createdAt = 3\<rparr>]\<rparr>"
    by (simp add: threePosts_def emptyStore_def)
  from t have 3: "deletePost (snd (deletePost threePosts ''p1'' ''a'')) ''p1'' ''a'' =
      (False, snd (deletePost threePosts ''p1'' ''a''))"
    by blast
  from t have 4: "deletePost threePosts ''p1'' ''b'' = (False, threePosts)"
    by (simp add: threePosts_def emptyStore_def)
  from a have 5: "fst (deletePostAdmin threePosts ''p3'')"
    by (simp add: threePosts_def emptyStore_def)
  from a have 6: "snd (deletePostAdmin threePosts ''p3'') =
      emptyStore\<lparr>posts :=
        [\<lparr>post_id = ''p1'', post_userId = ''a'', post_content = Some ''one'',
          post_imageUrl = None, post_createdAt = 1\<rparr>,
         \<lparr>post_id = ''p2'', post_userId = ''a'', post_content = Some ''two'',
          post_imageUrl = None, post_createdAt = 2\<rparr>]\<rparr>"
    by (simp add: threePosts_def emptyStore_def)
  from 1 2 have "deletePost threePosts ''p1'' ''a'' = (True, emptyStore\<lparr>posts :=
        [\<lparr>post_id = ''p2'', post_userId = ''a'', post_content = Some ''two'',
          post_imageUrl = None, post_createdAt = 2\<rparr>,
         \<lparr>post_id = ''p3'', post_userId = ''b'', post_content = Some ''three'',
          post_imageUrl = None, post_createdAt = 3\<rparr>]\<rparr>)"
    by (metis prod.collapse)
  moreover from 5 6 have "deletePostAdmin threePosts ''p3'' = (True, emptyStore\<lparr>posts :=
        [\<lparr>post_id = ''p1'', post_userId = ''a'', post_content = Some ''one'',
          post_imageUrl = None, post_createdAt = 1\<rparr>,
         \<lparr>post_id = ''p2'', post_userId = ''a'', post_content = Some ''two'',
          post_imageUrl = None, post_createdAt = 2\<rparr>]\<rparr>)"
    by (metis prod.collapse)
  ultimately show ?thesis using 2 3 4 by simp
qed

text \<open>
  C9. The four deletions of posts and videos return the store they were given with
  the matching rows filtered out of the posts (or videos) table and every other table
  as it was; in particular the likes, comments and saves tables, and so the rows in
  them that refer to the deleted target, are unchanged.
\<close>

theorem delete_no_cascade:
  "snd (deletePost s p u) = s\<lparr>posts := filter (\<lambda>r. \<not> (post_id r = p \<and> post_userId r = u)) (posts s)\<rparr>
   \<and> snd (deletePostAdmin s p) = s\<lparr>posts := filter (\<lambda>r. post_id r \<noteq> p) (posts s)\<rparr>
   \<and> snd (deleteVideo s v u) = s\<lparr>videos := filter (\<lambda>r. \<not> (video_id r = v \<and> video_userId r = u)) (videos s)\<rparr>
   \<and> snd (deleteVideoAdmin s v) = s\<lparr>videos := filter (\<lambda>r. video_id r \<noteq> v) (videos s)\<rparr>
   \<and> likes (snd (deletePost s p u)) = likes s
   \<and> comments (snd (deletePost s p u)) = comments s
   \<and> saves (snd (deletePost s p u)) = saves s
   \<and> likes (snd (deletePostAdmin s p)) = likes s
   \<and> comments (snd (deletePostAdmin s p)) = comments s
   \<and> saves (snd (deletePostAdmin s p)) = saves s
   \<and> likes (snd (deleteVideo s v u)) = likes s
   \<and> comments (snd (deleteVideo s v u)) = comments s
   \<and> saves (snd (deleteVideo s v u)) = saves s
   \<and> likes (snd (deleteVideoAdmin s v)) = likes s
   \<and> comments (snd (deleteVideoAdmin s v)) = comments s
   \<and> saves (snd (deleteVideoAdmin s v)) = saves s"
  by (simp add: deletePost_def deletePostAdmin_def deleteVideo_def deleteVideoAdmin_def deleteWhere_def)

section \<open>The feeds and the listings\<close>

text \<open>What \<open>limitRows\<close> does with a limit that is not a count of rows.\<close>

lemma limitRows_cases:
  "limitRows (Finite (- 1)) rows = Inr rows"
  "limitRows (Finite (3 / 2)) rows = Inl InvalidLimit"
  "limitRows (Finite (2 ^ 63)) rows = Inl InvalidLimit"
  "limitRows (Finite 20) rows = Inr (take 20 rows)"
  by (simp_all add: limitRows_def)

text \<open>
  C4. The code at the claim's failing input: for a viewer B and the limits 20, 2 and
  none, on the empty database and on one with two users and three posts, \<open>getFeedPosts\<close>
  and \<open>getFeedVideos\<close> return no list at all: the select fails on its join condition,
  which reads \<^verbatim>\<open>posts.locationId\<close> or \<^verbatim>\<open>videos.locationId\<close>.
\<close>

theorem getFeed_rejected:
  "getFeedPosts emptyStore ''b'' (Some (Finite 20)) = Inl UndefinedColumn
   \<and> getFeedVideos emptyStore ''b'' (Some (Finite 20)) = Inl UndefinedColumn
   \<and> getFeedPosts (threePosts\<lparr>users := [userA, userB]\<rparr>) ''b'' (Some (Finite 2)) = Inl UndefinedColumn
   \<and> getFeedPosts (threePosts\<lparr>users := [userA, userB]\<rparr>) ''b'' None = Inl UndefinedColumn
   \<and> getFeedVideos (threePosts\<lparr>users := [userA, userB]\<rparr>) ''b'' None = Inl UndefinedColumn"
  by (simp add: listings_rejected)


section \<open>The scenario of the specification\<close>

text \<open>
  C3. The code on the scenario: \<open>createPost\<close> for A is refused, since its insert
  carries no id, and so are the like, the save and the comment of B; the store still
  holds the two users and nothing else. \<open>getPostWithDetails\<close> for viewer A and for
  viewer B returns no object: its select fails on the join condition that reads
  \<^verbatim>\<open>posts.locationId\<close>.
\<close>

theorem getPostWithDetails_scenario:
  "createPost (emptyStore\<lparr>users := [userA, userB]\<rparr>)
      \<lparr>insertPost_userId = ''a'', insertPost_content = Some ''hello'',
       insertPost_imageUrl = None\<rparr> 1 = Inl NotNullViolation
   \<and> scenarioStore = emptyStore\<lparr>users := [userA, userB]\<rparr>
   \<and> getPostWithDetails scenarioStore ''p1'' (Some ''a'') = Inl UndefinedColumn
   \<and> getPostWithDetails scenarioStore ''p1'' (Some ''b'') = Inl UndefinedColumn"
  by (simp add: inserts_rejected scenarioStore_eq listings_rejected)

section \<open>Targets of likes, saves and comments\<close>



end
